theory Spec2Isabelle
  imports Main
begin

section \<open>Options and their defaults\<close>

text \<open>
  The interface \<open>ReusableLoggerOptions\<close>: every field is optional, so a field is
  \<open>None\<close> when the caller left it out (\<open>undefined\<close>).  \<open>maxFiles\<close> is a
  \<open>number\<close>: an integer or \<open>NaN\<close>.  Negative zero is \<open>0\<close>; fractions and
  infinities, which behave like any integer other than \<open>0\<close> here, are not modelled.
\<close>

datatype number = Number int | NaN

text \<open>\<open>a * b\<close> on numbers: \<open>NaN\<close> when an operand is \<open>NaN\<close>.\<close>

fun num_times :: "number \<Rightarrow> number \<Rightarrow> number" where
  "num_times (Number a) (Number b) = Number (a * b)"
| "num_times a b = NaN"

record ReusableLoggerOptions =
  level :: "string option"
  enableConsole :: "bool option"
  enableFile :: "bool option"
  logDir :: "string option"
  maxFiles :: "number option"
  maxSize :: "string option"
  datePattern :: "string option"
  zippedArchive :: "bool option"
  nodeEnv :: "string option"

text \<open>
  \<open>x || d\<close> yields \<open>d\<close> when \<open>x\<close> is falsy: \<open>undefined\<close>, the empty string,
  the numbers \<open>0\<close> and \<open>NaN\<close>, or \<open>false\<close>.  \<open>x !== undefined ? x : d\<close> yields \<open>d\<close>
  only when \<open>x\<close> is \<open>undefined\<close>.
\<close>

definition str_or :: "string option \<Rightarrow> string \<Rightarrow> string" where
  "str_or x d = (case x of None \<Rightarrow> d | Some s \<Rightarrow> if s = [] then d else s)"

definition num_or :: "number option \<Rightarrow> number \<Rightarrow> number" where
  "num_or x d =
     (case x of None \<Rightarrow> d | Some n \<Rightarrow> if n = Number 0 \<or> n = NaN then d else n)"

definition bool_or :: "bool option \<Rightarrow> bool \<Rightarrow> bool" where
  "bool_or x d = (case x of None \<Rightarrow> d | Some b \<Rightarrow> if b then b else d)"

definition defined_or :: "bool option \<Rightarrow> bool \<Rightarrow> bool" where
  "defined_or x d = (case x of None \<Rightarrow> d | Some b \<Rightarrow> b)"

text \<open>
  The constants that \<open>createWinstonConfig\<close> computes from its argument before it
  does anything else.  A primed name is the local constant that has the name of the
  option it is read from.
\<close>

record resolved =
  logLevel :: string
  enableConsole' :: bool
  enableFile' :: bool
  logDir' :: string
  maxFiles' :: number
  maxSize' :: string
  datePattern' :: string
  zippedArchive' :: bool
  nodeEnv' :: string
  isProduction :: bool

definition resolveOptions :: "ReusableLoggerOptions \<Rightarrow> resolved" where
  "resolveOptions options =
     \<lparr> logLevel = str_or (level options) ''info'',
       enableConsole' = defined_or (enableConsole options) True,
       enableFile' = bool_or (enableFile options) False,
       logDir' = str_or (logDir options) ''logs'',
       maxFiles' = num_or (maxFiles options) (Number 10),
       maxSize' = str_or (maxSize options) ''10MB'',
       datePattern' = str_or (datePattern options) ''YYYY-MM-DD'',
       zippedArchive' = defined_or (zippedArchive options) True,
       nodeEnv' = str_or (nodeEnv options) ''development'',
       isProduction = (str_or (nodeEnv options) ''development'' = ''production'') \<rparr>"

section \<open>Transports\<close>

text \<open>
  A format is the list of steps handed to \<open>winston.format.combine\<close>.  The step
  \<open>Printf_fileLog\<close> stands for the \<open>printf\<close> callback of the file format, which is
  modelled below as \<open>fileLogFormat_printf\<close>.
\<close>

datatype logform =
    Timestamp string
  | Errors bool
  | Splat
  | Json
  | Printf_fileLog
  | Colorize bool
  | NestLike string bool bool
  | Simple

type_synonym format = "logform list"

definition fileLogFormat :: format where
  "fileLogFormat =
     [Timestamp ''YYYY-MM-DD HH:mm:ss'', Errors True, Splat, Json, Printf_fileLog]"

definition consoleFormat :: "bool \<Rightarrow> format" where
  "consoleFormat isProd =
     [Timestamp (if isProd then ''YYYY-MM-DD HH:mm:ss'' else ''HH:mm:ss''), Errors True, Splat]
     @ (if isProd then [] else [Colorize True])
     @ [NestLike ''ReusableApp'' (\<not> isProd) (\<not> isProd)]"

text \<open>
  \<open>path.join\<close> belongs to the runtime; its result is kept as the pair of its
  arguments, the directory and the file name.
\<close>

datatype path = path_join string string

fun basename :: "path \<Rightarrow> string" where
  "basename (path_join d f) = f"

record ConsoleOptions =
  c_level :: string
  c_format :: format
  c_handleExceptions :: bool
  c_handleRejections :: bool

text \<open>
  The options of a rotating file transport.  Only the error transport sets
  \<open>handleExceptions\<close> and \<open>handleRejections\<close>; the others leave them out.
\<close>

record DailyRotateFileOptions =
  filename :: path
  f_level :: string
  f_format :: format
  f_datePattern :: string
  f_zippedArchive :: bool
  f_maxSize :: string
  f_maxFiles :: number
  f_handleExceptions :: "bool option"
  f_handleRejections :: "bool option"

datatype transport = Console ConsoleOptions | DailyRotateFile DailyRotateFileOptions

record LoggerOptions =
  lo_level :: string
  lo_format :: format
  transports :: "transport list"
  exitOnError :: bool

section \<open>The file system and the console\<close>

text \<open>
  What \<open>ensureLogDirectory\<close> and \<open>createWinstonConfig\<close> touch outside the program:
  which paths exist (\<open>fs.existsSync\<close>), for which paths \<open>fs.mkdirSync\<close> throws, and
  the messages written with \<open>console.error\<close>.  The two messages of the source are
  \<open>MkdirFailed dir\<close> (creating the log directory failed; file logging will be disabled
  or fail) and \<open>LogDirMissing\<close> (no log directory given although file logging is
  enabled; file logging is skipped).  A \<open>mkdirSync\<close> that succeeds makes its path
  exist; the parent directories it creates on the way are not tracked.
\<close>

datatype diagnostic = MkdirFailed string | LogDirMissing

record world =
  existsSync :: "string \<Rightarrow> bool"
  mkdirSync_throws :: "string \<Rightarrow> bool"
  console_error :: "diagnostic list"

definition ensureLogDirectory :: "string \<Rightarrow> world \<Rightarrow> world" where
  "ensureLogDirectory dir w =
     (if \<not> existsSync w dir then
        (if mkdirSync_throws w dir
         then w\<lparr>console_error := console_error w @ [MkdirFailed dir]\<rparr>
         else w\<lparr>existsSync := (existsSync w)(dir := True)\<rparr>)
      else w)"

section \<open>Composing the transports\<close>

definition consoleTransport :: "resolved \<Rightarrow> transport" where
  "consoleTransport c =
     Console \<lparr> c_level = (if isProduction c then ''info'' else logLevel c),
               c_format = consoleFormat (isProduction c),
               c_handleExceptions = True,
               c_handleRejections = True \<rparr>"

definition errorTransport :: "resolved \<Rightarrow> transport" where
  "errorTransport c =
     DailyRotateFile \<lparr> filename = path_join (logDir' c) ''error-%DATE%.log'',
                       f_level = ''error'',
                       f_format = fileLogFormat,
                       f_datePattern = datePattern' c,
                       f_zippedArchive = zippedArchive' c,
                       f_maxSize = maxSize' c,
                       f_maxFiles = num_times (maxFiles' c) (Number 2),
                       f_handleExceptions = Some True,
                       f_handleRejections = Some True \<rparr>"

definition warnTransport :: "resolved \<Rightarrow> transport" where
  "warnTransport c =
     DailyRotateFile \<lparr> filename = path_join (logDir' c) ''warn-%DATE%.log'',
                       f_level = ''warn'',
                       f_format = fileLogFormat,
                       f_datePattern = datePattern' c,
                       f_zippedArchive = zippedArchive' c,
                       f_maxSize = maxSize' c,
                       f_maxFiles = maxFiles' c,
                       f_handleExceptions = None,
                       f_handleRejections = None \<rparr>"

definition infoTransport :: "resolved \<Rightarrow> transport" where
  "infoTransport c =
     DailyRotateFile \<lparr> filename = path_join (logDir' c) ''info-%DATE%.log'',
                       f_level = ''info'',
                       f_format = fileLogFormat,
                       f_datePattern = datePattern' c,
                       f_zippedArchive = zippedArchive' c,
                       f_maxSize = maxSize' c,
                       f_maxFiles = maxFiles' c,
                       f_handleExceptions = None,
                       f_handleRejections = None \<rparr>"

definition combinedTransport :: "resolved \<Rightarrow> transport" where
  "combinedTransport c =
     DailyRotateFile \<lparr> filename = path_join (logDir' c) ''combined-%DATE%.log'',
                       f_level = logLevel c,
                       f_format = fileLogFormat,
                       f_datePattern = datePattern' c,
                       f_zippedArchive = zippedArchive' c,
                       f_maxSize = maxSize' c,
                       f_maxFiles = maxFiles' c,
                       f_handleExceptions = None,
                       f_handleRejections = None \<rparr>"

definition debugTransport :: "resolved \<Rightarrow> transport" where
  "debugTransport c =
     DailyRotateFile \<lparr> filename = path_join (logDir' c) ''debug-%DATE%.log'',
                       f_level = ''debug'',
                       f_format = fileLogFormat,
                       f_datePattern = datePattern' c,
                       f_zippedArchive = zippedArchive' c,
                       f_maxSize = maxSize' c,
                       f_maxFiles = maxFiles' c,
                       f_handleExceptions = None,
                       f_handleRejections = None \<rparr>"

text \<open>
  The file branch of \<open>createWinstonConfig\<close>: the transports pushed so far and the
  world go in, both come out.  Each \<open>transports.push\<close> appends one transport.
\<close>

definition pushFileTransports :: "resolved \<Rightarrow> transport list \<Rightarrow> world \<Rightarrow> transport list \<times> world" where
  "pushFileTransports c ts w =
     (if logDir' c = [] then
        (ts, w\<lparr>console_error := console_error w @ [LogDirMissing]\<rparr>)
      else
        (let w1 = ensureLogDirectory (logDir' c) w;
             ts1 = ts @ [errorTransport c];
             ts2 = ts1 @ [warnTransport c];
             ts3 = ts2 @ [infoTransport c];
             ts4 = ts3 @ [combinedTransport c];
             ts5 = (if \<not> isProduction c \<or> logLevel c = ''debug'' \<or> logLevel c = ''verbose''
                       \<or> logLevel c = ''silly''
                    then ts4 @ [debugTransport c] else ts4)
         in (ts5, w1)))"

definition createWinstonConfig :: "ReusableLoggerOptions \<Rightarrow> world \<Rightarrow> LoggerOptions \<times> world" where
  "createWinstonConfig options w =
     (let c = resolveOptions options;
          ts0 = [];
          ts1 = (if enableConsole' c then ts0 @ [consoleTransport c] else ts0);
          (ts2, w') = (if enableFile' c then pushFileTransports c ts1 w else (ts1, w))
      in (\<lparr> lo_level = logLevel c,
             lo_format = [Splat, Simple],
             transports = ts2,
             exitOnError = False \<rparr>, w'))"

text \<open>
  The factory that \<open>ReusableLoggerModule.forRootAsync\<close> hands to the Winston module,
  applied to the options that the caller's own factory produced.
\<close>

definition useFactory :: "ReusableLoggerOptions \<Rightarrow> world \<Rightarrow> LoggerOptions \<times> world" where
  "useFactory loggerOptions w =
     (let w1 = (case (enableFile loggerOptions, logDir loggerOptions) of
                  (Some True, Some dir) \<Rightarrow> if dir \<noteq> [] then ensureLogDirectory dir w else w
                | _ \<Rightarrow> w)
      in createWinstonConfig loggerOptions w1)"

text \<open>Reading a composed list: its console transports, its file transports.\<close>

fun consoleSinks :: "transport list \<Rightarrow> ConsoleOptions list" where
  "consoleSinks [] = []"
| "consoleSinks (Console co # ts) = co # consoleSinks ts"
| "consoleSinks (DailyRotateFile fo # ts) = consoleSinks ts"

fun fileSinks :: "transport list \<Rightarrow> DailyRotateFileOptions list" where
  "fileSinks [] = []"
| "fileSinks (Console co # ts) = fileSinks ts"
| "fileSinks (DailyRotateFile fo # ts) = fo # fileSinks ts"

definition tier :: "DailyRotateFileOptions \<Rightarrow> string" where
  "tier fo = basename (filename fo)"

fun describe :: "transport \<Rightarrow> string \<times> string" where
  "describe (Console co) = (''console'', c_level co)"
| "describe (DailyRotateFile fo) = (tier fo, f_level fo)"

section \<open>JavaScript values and objects\<close>

text \<open>
  The values that log calls carry.  Numbers are modelled as integers; functions and
  symbols are not modelled.  An object is the
  list of its own enumerable string-keyed properties in the order in which the runtime
  enumerates them; symbol-keyed properties are left out, since neither \<open>Object.keys\<close>
  nor \<open>JSON.stringify\<close> sees them.  \<open>JCircular\<close> is a reference from inside an
  object or array back to one that contains it.
\<close>

datatype jsval =
    JUndefined
  | JNull
  | JBool bool
  | JNum int
  | JStr string
  | JBigInt int
  | JArr "jsval list"
  | JObj "(string \<times> jsval) list"
  | JCircular

type_synonym obj = "(string \<times> jsval) list"



definition obj_get :: "obj \<Rightarrow> string \<Rightarrow> jsval" where
  "obj_get ob k = (case map_of ob k of None \<Rightarrow> JUndefined | Some v \<Rightarrow> v)"

text \<open>
  The order of an object's own property keys (OrdinaryOwnPropertyKeys): first the keys
  that are array indices, in ascending numeric order, then all other string keys in the
  order in which they were created.  An array index is the canonical decimal numeral of
  an integer from \<open>0\<close> to \<open>2^32 - 2\<close>.
\<close>

definition is_digit :: "char \<Rightarrow> bool" where
  "is_digit c = (48 \<le> (of_char c :: nat) \<and> (of_char c :: nat) \<le> 57)"

definition index_value :: "string \<Rightarrow> nat" where
  "index_value s = foldl (\<lambda>n c. 10 * n + ((of_char c :: nat) - 48)) 0 s"

definition is_array_index :: "string \<Rightarrow> bool" where
  "is_array_index s =
     (s \<noteq> [] \<and> list_all is_digit s \<and> (length s = 1 \<or> hd s \<noteq> CHR ''0'')
      \<and> index_value s < 4294967295)"

fun insert_index :: "string \<Rightarrow> jsval \<Rightarrow> obj \<Rightarrow> obj" where
  "insert_index k v [] = [(k, v)]"
| "insert_index k v ((k', v') # ob) =
     (if is_array_index k' \<and> index_value k' < index_value k
      then (k', v') # insert_index k v ob
      else (k, v) # (k', v') # ob)"

text \<open>
  \<open>ob[k] = v\<close> on an ordinary object: an existing property keeps its place and gets
  the new value; a new one is created in its place in the key order.
\<close>

definition obj_set :: "obj \<Rightarrow> string \<Rightarrow> jsval \<Rightarrow> obj" where
  "obj_set ob k v =
     (if k \<in> set (map fst ob) then map (\<lambda>(k', v'). if k' = k then (k', v) else (k', v')) ob
      else if is_array_index k then insert_index k v ob
      else ob @ [(k, v)])"




text \<open>
  \<open>JSON.stringify\<close> and \<open>JSON.parse\<close> belong to the runtime.
  \<open>JSON.stringify\<close> throws a \<open>TypeError\<close> when the value holds a BigInt or a
  circular reference; a property whose value is \<open>undefined\<close> is skipped before its
  value is looked at.  Otherwise it returns a text, which is kept as the value it was
  made from (\<open>JSON_text\<close>).  \<open>JSON.parse\<close> of that text is what the runtime's
  contract says: the same value, with the properties whose value is \<open>undefined\<close> left
  out and \<open>undefined\<close> array elements read back as \<open>null\<close>.  (A value that is
  \<open>undefined\<close> itself yields no text; the callback below only passes objects.)
\<close>

fun serializable :: "jsval \<Rightarrow> bool"
  and serializable_members :: "(string \<times> jsval) list \<Rightarrow> bool"
  and serializable_elements :: "jsval list \<Rightarrow> bool" where
  "serializable (JObj ms) = serializable_members ms"
| "serializable (JArr xs) = serializable_elements xs"
| "serializable (JBigInt n) = False"
| "serializable JCircular = False"
| "serializable JUndefined = True"
| "serializable JNull = True"
| "serializable (JBool b) = True"
| "serializable (JNum n) = True"
| "serializable (JStr s) = True"
| "serializable_members [] = True"
| "serializable_members ((k, v) # ms) = (serializable v \<and> serializable_members ms)"
| "serializable_elements [] = True"
| "serializable_elements (x # xs) = (serializable x \<and> serializable_elements xs)"



fun json_value :: "jsval \<Rightarrow> jsval"
  and json_members :: "(string \<times> jsval) list \<Rightarrow> (string \<times> jsval) list"
  and json_elements :: "jsval list \<Rightarrow> jsval list" where
  "json_value (JObj ms) = JObj (json_members ms)"
| "json_value (JArr xs) = JArr (json_elements xs)"
| "json_value JUndefined = JUndefined"
| "json_value JNull = JNull"
| "json_value (JBool b) = JBool b"
| "json_value (JNum n) = JNum n"
| "json_value (JStr s) = JStr s"
| "json_value (JBigInt n) = JBigInt n"
| "json_value JCircular = JCircular"
| "json_members [] = []"
| "json_members ((k, v) # ms) =
     (if v = JUndefined then json_members ms else (k, json_value v) # json_members ms)"
| "json_elements [] = []"
| "json_elements (x # xs) =
     (if x = JUndefined then JNull else json_value x) # json_elements xs"



section \<open>The structured format of the file transports\<close>


section \<open>The logging service and its child loggers\<close>

text \<open>
  A call of a method of the Winston logger: \<open>logger.info(message, meta)\<close> is the call
  with method \<open>info\<close>, the message and the meta object.
\<close>

record call =
  w_method :: string
  w_message :: jsval
  w_meta :: obj

type_synonym handle = nat

record ReusableLoggerService =
  logger :: handle
  currentContext :: "string option"

text \<open>The field \<open>context\<close> of the child logger is written \<open>context'\<close>.\<close>

record ReusableChildLogger =
  winstonLoggerInstance :: handle
  context' :: string

text \<open>
  The optional argument \<open>trace?: string | Error\<close> of the \<open>error\<close> methods.  The
  type \<open>Error\<close> is structural: an argument of that type is an object with a name, a
  message and an optional stack, and \<open>trace instanceof Error\<close> holds for it
  (\<open>TraceError\<close>) or does not (\<open>TraceErrorLike\<close>, for instance an object literal or
  an error of another realm).
\<close>

record JsError =
  err_name :: string
  err_message :: string
  err_stack :: "string option"

datatype trace = NoTrace | TraceString string | TraceError JsError | TraceErrorLike JsError

fun optional :: "string option \<Rightarrow> jsval" where
  "optional None = JUndefined"
| "optional (Some s) = JStr s"

text \<open>\<open>context || this.currentContext\<close>\<close>

definition context_or :: "string option \<Rightarrow> string option \<Rightarrow> jsval" where
  "context_or ctx current =
     (case ctx of
        None \<Rightarrow> optional current
      | Some c \<Rightarrow> if c = [] then optional current else JStr c)"

text \<open>
  The methods \<open>log\<close>, \<open>warn\<close>, \<open>debug\<close> and \<open>verbose\<close> differ only in the Winston
  method they call.
\<close>

datatype severity_method = Log | Warn | Debug | Verbose

fun winston_method :: "severity_method \<Rightarrow> string" where
  "winston_method Log = ''info''"
| "winston_method Warn = ''warn''"
| "winston_method Debug = ''debug''"
| "winston_method Verbose = ''verbose''"

text \<open>
  The trace handling of the two \<open>error\<close> methods: \<open>if (trace instanceof Error)\<close>
  sets \<open>stack\<close>, \<open>else if (typeof trace === 'string' && trace.length > 0)\<close> sets
  \<open>trace\<close>, and every other argument leaves the meta object as it is.
\<close>

definition attach_trace :: "trace \<Rightarrow> obj \<Rightarrow> obj" where
  "attach_trace tr errorMeta =
     (case tr of
        TraceError e \<Rightarrow> obj_set errorMeta ''stack'' (optional (err_stack e))
      | TraceString s \<Rightarrow> if length s > 0 then obj_set errorMeta ''trace'' (JStr s) else errorMeta
      | TraceErrorLike e \<Rightarrow> errorMeta
      | NoTrace \<Rightarrow> errorMeta)"

definition service_log ::
  "severity_method \<Rightarrow> ReusableLoggerService \<Rightarrow> jsval \<Rightarrow> string option \<Rightarrow> jsval list \<Rightarrow> handle \<times> call" where
  "service_log m this message ctx meta =
     (logger this,
      \<lparr> w_method = winston_method m, w_message = message,
        w_meta = [(''context'', context_or ctx (currentContext this)), (''meta'', JArr meta)] \<rparr>)"

definition service_error ::
  "ReusableLoggerService \<Rightarrow> jsval \<Rightarrow> trace \<Rightarrow> string option \<Rightarrow> jsval list \<Rightarrow> handle \<times> call" where
  "service_error this message tr ctx meta =
     (let errorMeta = [(''context'', context_or ctx (currentContext this)), (''meta'', JArr meta)]
      in (logger this,
          \<lparr> w_method = ''error'', w_message = message, w_meta = attach_trace tr errorMeta \<rparr>))"

definition setContext :: "string \<Rightarrow> ReusableLoggerService \<Rightarrow> ReusableLoggerService" where
  "setContext ctx this = this\<lparr>currentContext := Some ctx\<rparr>"

definition createChildLogger :: "string \<Rightarrow> ReusableLoggerService \<Rightarrow> ReusableChildLogger" where
  "createChildLogger ctx this = \<lparr> winstonLoggerInstance = logger this, context' = ctx \<rparr>"

definition child_log ::
  "severity_method \<Rightarrow> ReusableChildLogger \<Rightarrow> jsval \<Rightarrow> jsval list \<Rightarrow> handle \<times> call" where
  "child_log m this message meta =
     (winstonLoggerInstance this,
      \<lparr> w_method = winston_method m, w_message = message,
        w_meta = [(''context'', JStr (context' this)), (''meta'', JArr meta)] \<rparr>)"

definition child_error ::
  "ReusableChildLogger \<Rightarrow> jsval \<Rightarrow> trace \<Rightarrow> jsval list \<Rightarrow> handle \<times> call" where
  "child_error this message tr meta =
     (let errorMeta = [(''context'', JStr (context' this)), (''meta'', JArr meta)]
      in (winstonLoggerInstance this,
          \<lparr> w_method = ''error'', w_message = message, w_meta = attach_trace tr errorMeta \<rparr>))"

text \<open>
  Services and child loggers are objects that a program holds references to.  The store
  keeps them by reference (their position in a list), together with the calls that the
  Winston loggers have received so far; an action is one method call of the program.
  A service method takes a reference to a service, a child method a reference to a child:
  \<open>setContext\<close> and \<open>createChildLogger\<close> are methods of the service only.  An action on
  a reference that names no object has no result.
\<close>

record store =
  services :: "ReusableLoggerService list"
  children :: "ReusableChildLogger list"
  emitted :: "(handle \<times> call) list"

datatype action =
    SetContext nat string
  | CreateChildLogger nat string
  | ServiceLog severity_method nat jsval "string option" "jsval list"
  | ServiceError nat jsval trace "string option" "jsval list"
  | ChildLog severity_method nat jsval "jsval list"
  | ChildError nat jsval trace "jsval list"

fun step :: "action \<Rightarrow> store \<Rightarrow> store option" where
  "step (SetContext a ctx) s =
     (if a < length (services s)
      then Some (s\<lparr>services := (services s)[a := setContext ctx (services s ! a)]\<rparr>)
      else None)"
| "step (CreateChildLogger a ctx) s =
     (if a < length (services s)
      then Some (s\<lparr>children := children s @ [createChildLogger ctx (services s ! a)]\<rparr>)
      else None)"
| "step (ServiceLog m a message ctx meta) s =
     (if a < length (services s)
      then Some (s\<lparr>emitted := emitted s @ [service_log m (services s ! a) message ctx meta]\<rparr>)
      else None)"
| "step (ServiceError a message tr ctx meta) s =
     (if a < length (services s)
      then Some (s\<lparr>emitted := emitted s @ [service_error (services s ! a) message tr ctx meta]\<rparr>)
      else None)"
| "step (ChildLog m b message meta) s =
     (if b < length (children s)
      then Some (s\<lparr>emitted := emitted s @ [child_log m (children s ! b) message meta]\<rparr>)
      else None)"
| "step (ChildError b message tr meta) s =
     (if b < length (children s)
      then Some (s\<lparr>emitted := emitted s @ [child_error (children s ! b) message tr meta]\<rparr>)
      else None)"

fun run :: "action list \<Rightarrow> store \<Rightarrow> store option" where
  "run [] s = Some s"
| "run (act # acts) s = (case step act s of None \<Rightarrow> None | Some s' \<Rightarrow> run acts s')"

text \<open>
  What every action keeps: the child loggers that exist stay as they are, and the
  services keep their Winston logger.
\<close>

definition extends :: "store \<Rightarrow> store \<Rightarrow> bool" where
  "extends s s' =
     (length (children s) \<le> length (children s')
      \<and> (\<forall>b < length (children s). children s' ! b = children s ! b)
      \<and> length (services s') = length (services s)
      \<and> (\<forall>a < length (services s). logger (services s' ! a) = logger (services s ! a)))"

section \<open>Inputs used as examples\<close>

definition noOptions :: ReusableLoggerOptions where
  "noOptions = \<lparr> level = None, enableConsole = None, enableFile = None, logDir = None,
       maxFiles = None, maxSize = None, datePattern = None, zippedArchive = None,
       nodeEnv = None \<rparr>"

definition productionFileOptions :: ReusableLoggerOptions where
  "productionFileOptions = noOptions\<lparr> level := Some ''info'', enableFile := Some True,
       logDir := Some ''/tmp/logs'', nodeEnv := Some ''production'' \<rparr>"

definition falsyOptions :: ReusableLoggerOptions where
  "falsyOptions = \<lparr> level = Some [], enableConsole = Some False, enableFile = Some True,
       logDir = Some [], maxFiles = Some (Number 0), maxSize = Some [], datePattern = Some [],
       zippedArchive = Some False, nodeEnv = Some [] \<rparr>"

definition givenOptions :: ReusableLoggerOptions where
  "givenOptions = \<lparr> level = Some ''verbose'', enableConsole = Some False, enableFile = Some True,
       logDir = Some ''/var/log/app'', maxFiles = Some (Number 30), maxSize = Some ''20MB'',
       datePattern = Some ''YYYY-MM'', zippedArchive = Some False, nodeEnv = Some ''production'' \<rparr>"

text \<open>
  Two worlds in which no directory exists yet: in the first every \<open>mkdirSync\<close>
  succeeds, in the second every \<open>mkdirSync\<close> throws.
\<close>

definition emptyDisk :: world where
  "emptyDisk = \<lparr> existsSync = (\<lambda>p. False), mkdirSync_throws = (\<lambda>p. False), console_error = [] \<rparr>"

definition readOnlyDisk :: world where
  "readOnlyDisk = \<lparr> existsSync = (\<lambda>p. False), mkdirSync_throws = (\<lambda>p. True), console_error = [] \<rparr>"

definition boom :: JsError where
  "boom = \<lparr> err_name = ''Error'', err_message = ''boom'',
            err_stack = Some ''Error: boom at handler (orders.js:10:5)'' \<rparr>"

definition parentService :: ReusableLoggerService where
  "parentService = \<lparr> logger = 7, currentContext = Some ''Parent'' \<rparr>"

definition oneService :: store where
  "oneService = \<lparr> services = [parentService], children = [], emitted = [] \<rparr>"

definition afterwards :: "action list" where
  "afterwards = [SetContext 0 ''Changed'', ServiceLog Log 0 (JStr ''from parent'') None []]"

definition workerStore :: store where
  "workerStore = \<lparr> services = [parentService],
                   children = [\<lparr> winstonLoggerInstance = 7, context' = ''Worker'' \<rparr>],
                   emitted = [] \<rparr>"

definition changedStore :: store where
  "changedStore = \<lparr> services = [\<lparr> logger = 7, currentContext = Some ''Changed'' \<rparr>],
                    children = [\<lparr> winstonLoggerInstance = 7, context' = ''Worker'' \<rparr>],
                    emitted = [(7, \<lparr> w_method = ''info'', w_message = JStr ''from parent'',
                       w_meta = [(''context'', JStr ''Changed''), (''meta'', JArr [])] \<rparr>)] \<rparr>"



definition nanOptions :: ReusableLoggerOptions where
  "nanOptions = noOptions\<lparr> maxFiles := Some NaN \<rparr>"

definition errorLike :: JsError where
  "errorLike = \<lparr> err_name = ''Error'', err_message = ''boom'',
                 err_stack = Some ''Error: boom at handler (orders.js:10:5)'' \<rparr>"



section \<open>Properties of the composition\<close>

lemmas resolve_defs = resolveOptions_def str_or_def num_or_def bool_or_def defined_or_def

lemmas transport_defs =
  consoleTransport_def errorTransport_def warnTransport_def infoTransport_def
  combinedTransport_def debugTransport_def tier_def

lemma logDir_nonempty: "logDir' (resolveOptions options) \<noteq> []"
  by (simp add: resolveOptions_def str_or_def split: option.splits)

lemma transports_createWinstonConfig:
  "transports (fst (createWinstonConfig options w)) =
     (if enableConsole' (resolveOptions options) then [consoleTransport (resolveOptions options)] else [])
     @ (if enableFile' (resolveOptions options) then
          [errorTransport (resolveOptions options), warnTransport (resolveOptions options),
           infoTransport (resolveOptions options), combinedTransport (resolveOptions options)]
          @ (if \<not> isProduction (resolveOptions options)
                \<or> logLevel (resolveOptions options) = ''debug''
                \<or> logLevel (resolveOptions options) = ''verbose''
                \<or> logLevel (resolveOptions options) = ''silly''
             then [debugTransport (resolveOptions options)] else [])
        else [])"
  using logDir_nonempty [of options]
  by (simp add: createWinstonConfig_def pushFileTransports_def Let_def split: prod.splits)

lemma world_createWinstonConfig:
  "snd (createWinstonConfig options w) =
     (if enableFile' (resolveOptions options)
      then ensureLogDirectory (logDir' (resolveOptions options)) w else w)"
  using logDir_nonempty [of options]
  by (simp add: createWinstonConfig_def pushFileTransports_def Let_def split: prod.splits)

lemma transports_ignore_world:
  "transports (fst (createWinstonConfig options w)) = transports (fst (createWinstonConfig options w'))"
  by (simp only: transports_createWinstonConfig)

lemma isProduction_resolved:
  "isProduction (resolveOptions options) = (nodeEnv' (resolveOptions options) = ''production'')"
  by (simp add: resolveOptions_def)

text \<open>
  C1, evaluated where the directory cannot be created: with file logging enabled,
  \<open>logDir = /tmp/logs\<close> missing and \<open>mkdirSync\<close> throwing, \<open>ensureLogDirectory\<close>
  writes its diagnostic and returns, and \<open>createWinstonConfig\<close> goes on to push the
  error, warn, info and combined file transports after the console transport.  The
  directory still does not exist afterwards.  Through the module's factory the directory
  is tried twice, so the diagnostic is written twice.
\<close>

theorem mkdir_failure_keeps_file_sinks:
  "map describe (transports (fst (createWinstonConfig productionFileOptions readOnlyDisk))) =
     [(''console'', ''info''), (''error-%DATE%.log'', ''error''), (''warn-%DATE%.log'', ''warn''),
      (''info-%DATE%.log'', ''info''), (''combined-%DATE%.log'', ''info'')]
   \<and> console_error (snd (createWinstonConfig productionFileOptions readOnlyDisk)) = [MkdirFailed ''/tmp/logs'']
   \<and> existsSync (snd (createWinstonConfig productionFileOptions readOnlyDisk)) ''/tmp/logs'' = False
   \<and> console_error (snd (useFactory productionFileOptions readOnlyDisk)) =
        [MkdirFailed ''/tmp/logs'', MkdirFailed ''/tmp/logs'']"
  by (simp add: productionFileOptions_def noOptions_def resolve_defs transports_createWinstonConfig
      transport_defs world_createWinstonConfig ensureLogDirectory_def readOnlyDisk_def useFactory_def)

text \<open>
  C2: with the console enabled there is exactly one console transport; its level is
  \<open>info\<close> when the environment is \<open>production\<close>, whatever level is configured, and
  the configured level otherwise.
\<close>

theorem console_floor:
  assumes "enableConsole' (resolveOptions options)"
  shows "map c_level (consoleSinks (transports (fst (createWinstonConfig options w)))) =
           [if nodeEnv' (resolveOptions options) = ''production'' then ''info''
            else logLevel (resolveOptions options)]"
  using assms
  by (simp add: transports_createWinstonConfig isProduction_resolved transport_defs)

theorem console_floor_witness:
  "enableConsole' (resolveOptions (noOptions\<lparr>level := Some ''debug'', nodeEnv := Some ''production''\<rparr>))
   \<and> map c_level (consoleSinks (transports (fst (createWinstonConfig
         (noOptions\<lparr>level := Some ''debug'', nodeEnv := Some ''production''\<rparr>) emptyDisk)))) = [''info'']
   \<and> enableConsole' (resolveOptions (noOptions\<lparr>level := Some ''debug''\<rparr>))
   \<and> map c_level (consoleSinks (transports (fst (createWinstonConfig
         (noOptions\<lparr>level := Some ''debug''\<rparr>) emptyDisk)))) = [''debug'']"
  using console_floor [of "noOptions\<lparr>level := Some ''debug'', nodeEnv := Some ''production''\<rparr>" emptyDisk]
        console_floor [of "noOptions\<lparr>level := Some ''debug''\<rparr>" emptyDisk]
  by (simp add: noOptions_def resolve_defs)

text \<open>
  C3: with file logging enabled, the debug file transport is in the composed list
  exactly when the environment is not \<open>production\<close> or the configured level is
  \<open>debug\<close>, \<open>verbose\<close> or \<open>silly\<close>.  So it is absent in production with level
  \<open>info\<close>, and present with level \<open>verbose\<close> in every environment.
\<close>

theorem debug_sink_present_iff:
  assumes "enableFile' (resolveOptions options)"
  shows "((''debug-%DATE%.log'' \<in> set (map tier (fileSinks (transports (fst (createWinstonConfig options w))))))
          = (nodeEnv' (resolveOptions options) \<noteq> ''production''
             \<or> logLevel (resolveOptions options) = ''debug''
             \<or> logLevel (resolveOptions options) = ''verbose''
             \<or> logLevel (resolveOptions options) = ''silly''))
       \<and> (nodeEnv' (resolveOptions options) = ''production'' \<and> logLevel (resolveOptions options) = ''info''
            \<longrightarrow> ''debug-%DATE%.log'' \<notin> set (map tier (fileSinks (transports (fst (createWinstonConfig options w))))))
       \<and> (logLevel (resolveOptions options) = ''verbose''
            \<longrightarrow> ''debug-%DATE%.log'' \<in> set (map tier (fileSinks (transports (fst (createWinstonConfig options w))))))"
  using assms
  by (simp add: transports_createWinstonConfig isProduction_resolved transport_defs)

theorem debug_sink_present_iff_witness:
  "enableFile' (resolveOptions productionFileOptions)
   \<and> nodeEnv' (resolveOptions productionFileOptions) = ''production''
   \<and> logLevel (resolveOptions productionFileOptions) = ''info''
   \<and> ''debug-%DATE%.log'' \<notin> set (map tier (fileSinks (transports (fst (createWinstonConfig productionFileOptions emptyDisk)))))
   \<and> enableFile' (resolveOptions givenOptions)
   \<and> nodeEnv' (resolveOptions givenOptions) = ''production''
   \<and> logLevel (resolveOptions givenOptions) = ''verbose''
   \<and> ''debug-%DATE%.log'' \<in> set (map tier (fileSinks (transports (fst (createWinstonConfig givenOptions emptyDisk)))))"
  using debug_sink_present_iff [of productionFileOptions emptyDisk]
        debug_sink_present_iff [of givenOptions emptyDisk]
  by (simp add: productionFileOptions_def givenOptions_def noOptions_def resolve_defs)

text \<open>
  C4: with file logging enabled, the error file transport keeps \<open>maxFiles * 2\<close>
  files, and the warn, info, combined and debug file transports keep \<open>maxFiles\<close>
  files each.  \<open>maxFiles\<close> is the constant that \<open>createWinstonConfig\<close> computes: it
  is always an integer \<open>m\<close> other than \<open>0\<close>, so the error transport keeps exactly
  \<open>2 * m\<close> files, and it is the given number when one is given and is an integer
  other than \<open>0\<close>.
\<close>

theorem retained_files_per_tier:
  assumes "enableFile' (resolveOptions options)"
  shows "map (\<lambda>fo. (tier fo, f_maxFiles fo)) (fileSinks (transports (fst (createWinstonConfig options w)))) =
           [(''error-%DATE%.log'', num_times (maxFiles' (resolveOptions options)) (Number 2)),
            (''warn-%DATE%.log'', maxFiles' (resolveOptions options)),
            (''info-%DATE%.log'', maxFiles' (resolveOptions options)),
            (''combined-%DATE%.log'', maxFiles' (resolveOptions options))]
           @ (if nodeEnv' (resolveOptions options) \<noteq> ''production''
                 \<or> logLevel (resolveOptions options) \<in> {''debug'', ''verbose'', ''silly''}
              then [(''debug-%DATE%.log'', maxFiles' (resolveOptions options))] else [])
         \<and> (\<exists>m. m \<noteq> 0 \<and> maxFiles' (resolveOptions options) = Number m
                \<and> num_times (maxFiles' (resolveOptions options)) (Number 2) = Number (2 * m))
         \<and> (\<forall>n. maxFiles options = Some (Number n) \<and> n \<noteq> 0
                \<longrightarrow> maxFiles' (resolveOptions options) = Number n)"
proof -
  have resolved: "\<exists>m. m \<noteq> 0 \<and> maxFiles' (resolveOptions options) = Number m
                \<and> num_times (maxFiles' (resolveOptions options)) (Number 2) = Number (2 * m)"
  proof (cases "maxFiles options")
    case None
    then show ?thesis by (simp add: resolve_defs)
  next
    case (Some n)
    then show ?thesis by (cases n) (simp_all add: resolve_defs)
  qed
  have given: "\<forall>n. maxFiles options = Some (Number n) \<and> n \<noteq> 0
                \<longrightarrow> maxFiles' (resolveOptions options) = Number n"
    by (simp add: resolve_defs)
  have tiers: "map (\<lambda>fo. (tier fo, f_maxFiles fo)) (fileSinks (transports (fst (createWinstonConfig options w)))) =
           [(''error-%DATE%.log'', num_times (maxFiles' (resolveOptions options)) (Number 2)),
            (''warn-%DATE%.log'', maxFiles' (resolveOptions options)),
            (''info-%DATE%.log'', maxFiles' (resolveOptions options)),
            (''combined-%DATE%.log'', maxFiles' (resolveOptions options))]
           @ (if nodeEnv' (resolveOptions options) \<noteq> ''production''
                 \<or> logLevel (resolveOptions options) \<in> {''debug'', ''verbose'', ''silly''}
              then [(''debug-%DATE%.log'', maxFiles' (resolveOptions options))] else [])"
    using assms
    by (simp add: transports_createWinstonConfig isProduction_resolved transport_defs)
  show ?thesis
    by (intro conjI tiers resolved given)
qed

theorem retained_files_per_tier_witness:
  "enableFile' (resolveOptions givenOptions)
   \<and> maxFiles givenOptions = Some (Number 30)
   \<and> map (\<lambda>fo. (tier fo, f_maxFiles fo)) (fileSinks (transports (fst (createWinstonConfig givenOptions emptyDisk)))) =
           [(''error-%DATE%.log'', Number 60), (''warn-%DATE%.log'', Number 30),
            (''info-%DATE%.log'', Number 30), (''combined-%DATE%.log'', Number 30),
            (''debug-%DATE%.log'', Number 30)]"
  using retained_files_per_tier [of givenOptions emptyDisk]
  by (simp add: givenOptions_def resolve_defs)

text \<open>
  C5: the composed list is, in this order: the console transport when the console is
  enabled (with the level of C2), and none otherwise; then, when file logging is
  enabled, the error, warn, info and combined file transports with the levels
  \<open>error\<close>, \<open>warn\<close>, \<open>info\<close> and the configured level, and the debug file transport
  under the condition of C3.  With file logging disabled the list has no file transport.
\<close>

theorem composed_sink_list:
  "map describe (transports (fst (createWinstonConfig options w))) =
     (if enableConsole' (resolveOptions options)
      then [(''console'', if nodeEnv' (resolveOptions options) = ''production'' then ''info''
                          else logLevel (resolveOptions options))]
      else [])
     @ (if enableFile' (resolveOptions options)
        then [(''error-%DATE%.log'', ''error''), (''warn-%DATE%.log'', ''warn''),
              (''info-%DATE%.log'', ''info''),
              (''combined-%DATE%.log'', logLevel (resolveOptions options))]
             @ (if nodeEnv' (resolveOptions options) \<noteq> ''production''
                   \<or> logLevel (resolveOptions options) \<in> {''debug'', ''verbose'', ''silly''}
                then [(''debug-%DATE%.log'', ''debug'')] else [])
        else [])
   \<and> length (consoleSinks (transports (fst (createWinstonConfig options w))))
       = (if enableConsole' (resolveOptions options) then 1 else 0)
   \<and> (\<not> enableFile' (resolveOptions options)
        \<longrightarrow> fileSinks (transports (fst (createWinstonConfig options w))) = [])"
  by (simp add: transports_createWinstonConfig isProduction_resolved transport_defs)

theorem composed_sink_list_witness:
  "map describe (transports (fst (createWinstonConfig productionFileOptions emptyDisk))) =
     [(''console'', ''info''), (''error-%DATE%.log'', ''error''), (''warn-%DATE%.log'', ''warn''),
      (''info-%DATE%.log'', ''info''), (''combined-%DATE%.log'', ''info'')]
   \<and> \<not> enableFile' (resolveOptions noOptions)
   \<and> map describe (transports (fst (createWinstonConfig noOptions emptyDisk))) = [(''console'', ''info'')]
   \<and> fileSinks (transports (fst (createWinstonConfig noOptions emptyDisk))) = []"
  using composed_sink_list [of productionFileOptions emptyDisk]
        composed_sink_list [of noOptions emptyDisk]
  by (simp add: productionFileOptions_def noOptions_def resolve_defs)

section \<open>Properties of the structured format\<close>

lemmas index_defs = is_array_index_def is_digit_def index_value_def
















section \<open>Properties of the service and its child loggers\<close>

lemma extends_refl: "extends s s"
  by (simp add: extends_def)

lemma extends_trans: "extends s s1 \<Longrightarrow> extends s1 s2 \<Longrightarrow> extends s s2"
  by (auto simp: extends_def)

lemma step_extends: "step act s = Some s' \<Longrightarrow> extends s s'"
  by (cases act)
     (auto split: if_splits simp: extends_def nth_append nth_list_update setContext_def)

lemma run_extends: "run acts s = Some s' \<Longrightarrow> extends s s'"
proof (induction acts arbitrary: s)
  case Nil
  then show ?case by (simp add: extends_refl)
next
  case (Cons act acts)
  then obtain s1 where "step act s = Some s1" and "run acts s1 = Some s'"
    by (auto split: option.splits)
  then show ?case
    using Cons.IH [of s1] step_extends [of act s s1] by (blast intro: extends_trans)
qed

text \<open>
  C7: let a child logger be created from a service with the context \<open>X\<close>, in any
  store, whatever the current context of the service is, and let any actions follow,
  \<open>setContext\<close> on the service among them.  Then the child is unchanged: it holds the
  Winston logger of the service and the context \<open>X\<close>.  Each of \<open>log\<close>, \<open>warn\<close>,
  \<open>debug\<close>, \<open>verbose\<close> and \<open>error\<close> on the child sends one call to that logger, and
  the call's context is \<open>X\<close>.  \<open>setContext\<close> is an action on a service; there is none
  on a child.
\<close>

theorem child_context_fixed:
  assumes "step (CreateChildLogger a X) s = Some s1"
      and "run acts s1 = Some s2"
  shows "children s2 ! length (children s) =
           \<lparr> winstonLoggerInstance = logger (services s ! a), context' = X \<rparr>
         \<and> logger (services s2 ! a) = logger (services s ! a)
         \<and> (\<forall>m message meta.
               step (ChildLog m (length (children s)) message meta) s2 =
                 Some (s2\<lparr>emitted := emitted s2 @
                   [(logger (services s ! a),
                     \<lparr> w_method = winston_method m, w_message = message,
                       w_meta = [(''context'', JStr X), (''meta'', JArr meta)] \<rparr>)]\<rparr>))
         \<and> (\<forall>message tr meta.
               step (ChildError (length (children s)) message tr meta) s2 =
                 Some (s2\<lparr>emitted := emitted s2 @
                   [(logger (services s ! a),
                     \<lparr> w_method = ''error'', w_message = message,
                       w_meta = attach_trace tr [(''context'', JStr X), (''meta'', JArr meta)] \<rparr>)]\<rparr>)
               \<and> obj_get (attach_trace tr [(''context'', JStr X), (''meta'', JArr meta)]) ''context''
                   = JStr X)"
proof -
  let ?b = "length (children s)"
  let ?child = "\<lparr> winstonLoggerInstance = logger (services s ! a), context' = X \<rparr>"
  from assms(1) have a: "a < length (services s)"
    and s1: "s1 = s\<lparr>children := children s @ [?child]\<rparr>"
    by (auto split: if_splits simp: createChildLogger_def)
  have b1: "?b < length (children s1)" and c1: "children s1 ! ?b = ?child"
    and a1: "a < length (services s1)" and l1: "logger (services s1 ! a) = logger (services s ! a)"
    using a by (simp_all add: s1)
  from run_extends [OF assms(2)] have ext: "extends s1 s2" .
  from ext b1 c1 have b2: "?b < length (children s2)" and c2: "children s2 ! ?b = ?child"
    by (auto simp: extends_def)
  from ext a1 l1 have l2: "logger (services s2 ! a) = logger (services s ! a)"
    by (auto simp: extends_def)
  have ctx: "obj_get (attach_trace tr [(''context'', JStr X), (''meta'', JArr meta)]) ''context'' = JStr X"
    for tr meta
    by (cases tr)
       (simp_all add: attach_trace_def obj_set_def obj_get_def is_array_index_def is_digit_def)
  show ?thesis
    using b2 c2 l2 ctx by (simp add: child_log_def child_error_def Let_def)
qed

theorem child_context_fixed_witness:
  "step (CreateChildLogger 0 ''Worker'') oneService = Some workerStore
   \<and> run afterwards workerStore = Some changedStore
   \<and> step (ChildLog Log 0 (JStr ''from child'') []) changedStore =
       Some (changedStore\<lparr>emitted := emitted changedStore @
         [(7, \<lparr> w_method = ''info'', w_message = JStr ''from child'',
                w_meta = [(''context'', JStr ''Worker''), (''meta'', JArr [])] \<rparr>)]\<rparr>)"
proof -
  have created: "step (CreateChildLogger 0 ''Worker'') oneService = Some workerStore"
    by (simp add: oneService_def workerStore_def parentService_def createChildLogger_def)
  have ran: "run afterwards workerStore = Some changedStore"
    by (simp add: afterwards_def workerStore_def changedStore_def parentService_def
        setContext_def service_log_def context_or_def)
  from child_context_fixed [OF created ran]
  have "step (ChildLog Log 0 (JStr ''from child'') []) changedStore =
          Some (changedStore\<lparr>emitted := emitted changedStore @
            [(logger (services oneService ! 0),
              \<lparr> w_method = winston_method Log, w_message = JStr ''from child'',
                w_meta = [(''context'', JStr ''Worker''), (''meta'', JArr [])] \<rparr>)]\<rparr>)"
    by (simp add: oneService_def)
  then have child: "step (ChildLog Log 0 (JStr ''from child'') []) changedStore =
       Some (changedStore\<lparr>emitted := emitted changedStore @
         [(7, \<lparr> w_method = ''info'', w_message = JStr ''from child'',
                w_meta = [(''context'', JStr ''Worker''), (''meta'', JArr [])] \<rparr>)]\<rparr>)"
    by (simp add: oneService_def parentService_def)
  show ?thesis
    by (intro conjI created ran child)
qed

text \<open>
  C8, as the claim states it, fails for an error-like object that is not an instance of
  \<open>Error\<close>: it has a stack, and the meta object gets neither \<open>stack\<close> nor \<open>trace\<close>.
\<close>

theorem error_like_object_gets_no_stack:
  "err_stack errorLike = Some ''Error: boom at handler (orders.js:10:5)''
   \<and> w_meta (snd (service_error parentService (JStr ''order failed'') (TraceErrorLike errorLike) None [])) =
       [(''context'', JStr ''Parent''), (''meta'', JArr [])]
   \<and> obj_get (w_meta (snd (service_error parentService (JStr ''order failed'')
         (TraceErrorLike errorLike) None []))) ''stack'' = JUndefined"
  by (simp add: errorLike_def parentService_def service_error_def attach_trace_def
      context_or_def obj_get_def Let_def)

text \<open>
  C8, amended: \<open>error(message, trace, context, ...meta)\<close> calls the Winston method
  \<open>error\<close> with the message.  When \<open>trace instanceof Error\<close> holds, the meta object
  gets the property \<open>stack\<close>, which is the stack of the \<open>Error\<close> (not its message),
  and no \<open>trace\<close>; when \<open>trace\<close> is a string that is not empty, the meta object gets
  the property \<open>trace\<close>, which is that string, and no \<open>stack\<close>; when it is absent,
  the empty string, or an error-like object that is not an instance of \<open>Error\<close>, the
  meta object has neither.
\<close>

theorem error_trace_handling:
  "(\<forall>e. tr = TraceError e \<longrightarrow>
        map fst (w_meta (snd (service_error this message tr ctx meta))) = [''context'', ''meta'', ''stack'']
        \<and> obj_get (w_meta (snd (service_error this message tr ctx meta))) ''stack'' = optional (err_stack e))
   \<and> (\<forall>t. tr = TraceString t \<and> t \<noteq> [] \<longrightarrow>
        map fst (w_meta (snd (service_error this message tr ctx meta))) = [''context'', ''meta'', ''trace'']
        \<and> obj_get (w_meta (snd (service_error this message tr ctx meta))) ''trace'' = JStr t)
   \<and> (tr = NoTrace \<or> tr = TraceString [] \<or> (\<exists>e. tr = TraceErrorLike e) \<longrightarrow>
        map fst (w_meta (snd (service_error this message tr ctx meta))) = [''context'', ''meta''])
   \<and> w_method (snd (service_error this message tr ctx meta)) = ''error''
   \<and> w_message (snd (service_error this message tr ctx meta)) = message"
  by (auto simp add: service_error_def attach_trace_def obj_set_def obj_get_def index_defs Let_def)

theorem error_trace_handling_witness:
  "w_meta (snd (service_error parentService (JStr ''order failed'') (TraceError boom) None [])) =
     [(''context'', JStr ''Parent''), (''meta'', JArr []),
      (''stack'', JStr ''Error: boom at handler (orders.js:10:5)'')]
   \<and> err_message boom = ''boom''
   \<and> w_meta (snd (service_error parentService (JStr ''order failed'') (TraceString ''at handler'') None [])) =
     [(''context'', JStr ''Parent''), (''meta'', JArr []), (''trace'', JStr ''at handler'')]
   \<and> w_meta (snd (service_error parentService (JStr ''order failed'') (TraceString []) None [])) =
     [(''context'', JStr ''Parent''), (''meta'', JArr [])]
   \<and> w_meta (snd (service_error parentService (JStr ''order failed'') NoTrace None [])) =
     [(''context'', JStr ''Parent''), (''meta'', JArr [])]
   \<and> w_meta (snd (service_error parentService (JStr ''order failed'') (TraceErrorLike errorLike) None [])) =
     [(''context'', JStr ''Parent''), (''meta'', JArr [])]"
  using error_trace_handling [of "TraceError boom" parentService "JStr ''order failed''" None "[]"]
        error_trace_handling [of "TraceString ''at handler''" parentService "JStr ''order failed''" None "[]"]
        error_trace_handling [of "TraceString []" parentService "JStr ''order failed''" None "[]"]
        error_trace_handling [of NoTrace parentService "JStr ''order failed''" None "[]"]
        error_trace_handling [of "TraceErrorLike errorLike" parentService "JStr ''order failed''" None "[]"]
  by (simp add: parentService_def boom_def service_error_def attach_trace_def obj_set_def
      index_defs context_or_def Let_def)

section \<open>Properties of the defaults\<close>

text \<open>
  C9, as the claim states it, fails where a field is present but falsy: a level given as
  the empty string is not kept, and neither is \<open>maxFiles\<close> given as \<open>0\<close>.
\<close>

theorem falsy_present_not_kept:
  "level falsyOptions = Some [] \<and> logLevel (resolveOptions falsyOptions) = ''info''
   \<and> maxFiles falsyOptions = Some (Number 0) \<and> maxFiles' (resolveOptions falsyOptions) = Number 10"
  by (simp add: falsyOptions_def resolve_defs)

text \<open>
  C9, amended: every absent field gets its default (level \<open>info\<close>, console enabled,
  file disabled, directory \<open>logs\<close>, 10 files, size \<open>10MB\<close>, date pattern
  \<open>YYYY-MM-DD\<close>, compression enabled, environment \<open>development\<close>).  A flag that is
  present is kept, \<open>false\<close> too.  A level, directory, size, date pattern or environment
  that is present is kept unless it is the empty string, and \<open>maxFiles\<close> that is
  present is kept unless it is \<open>0\<close> or \<open>NaN\<close>; the empty string, \<open>0\<close> and
  \<open>NaN\<close> are replaced by the default of the field.  \<open>resolveOptions\<close> has a value
  for every options record: it has no failing branch.
\<close>

theorem defaults_resolution:
  "(level options = None \<longrightarrow> logLevel (resolveOptions options) = ''info'')
   \<and> (enableConsole options = None \<longrightarrow> enableConsole' (resolveOptions options))
   \<and> (enableFile options = None \<longrightarrow> \<not> enableFile' (resolveOptions options))
   \<and> (logDir options = None \<longrightarrow> logDir' (resolveOptions options) = ''logs'')
   \<and> (maxFiles options = None \<longrightarrow> maxFiles' (resolveOptions options) = Number 10)
   \<and> (maxSize options = None \<longrightarrow> maxSize' (resolveOptions options) = ''10MB'')
   \<and> (datePattern options = None \<longrightarrow> datePattern' (resolveOptions options) = ''YYYY-MM-DD'')
   \<and> (zippedArchive options = None \<longrightarrow> zippedArchive' (resolveOptions options))
   \<and> (nodeEnv options = None \<longrightarrow> nodeEnv' (resolveOptions options) = ''development'')
   \<and> (\<forall>b. enableConsole options = Some b \<longrightarrow> enableConsole' (resolveOptions options) = b)
   \<and> (\<forall>b. enableFile options = Some b \<longrightarrow> enableFile' (resolveOptions options) = b)
   \<and> (\<forall>b. zippedArchive options = Some b \<longrightarrow> zippedArchive' (resolveOptions options) = b)
   \<and> (\<forall>s. level options = Some s \<and> s \<noteq> [] \<longrightarrow> logLevel (resolveOptions options) = s)
   \<and> (\<forall>s. logDir options = Some s \<and> s \<noteq> [] \<longrightarrow> logDir' (resolveOptions options) = s)
   \<and> (\<forall>s. maxSize options = Some s \<and> s \<noteq> [] \<longrightarrow> maxSize' (resolveOptions options) = s)
   \<and> (\<forall>s. datePattern options = Some s \<and> s \<noteq> [] \<longrightarrow> datePattern' (resolveOptions options) = s)
   \<and> (\<forall>s. nodeEnv options = Some s \<and> s \<noteq> [] \<longrightarrow> nodeEnv' (resolveOptions options) = s)
   \<and> (\<forall>n. maxFiles options = Some (Number n) \<and> n \<noteq> 0
          \<longrightarrow> maxFiles' (resolveOptions options) = Number n)
   \<and> (level options = Some [] \<longrightarrow> logLevel (resolveOptions options) = ''info'')
   \<and> (logDir options = Some [] \<longrightarrow> logDir' (resolveOptions options) = ''logs'')
   \<and> (maxSize options = Some [] \<longrightarrow> maxSize' (resolveOptions options) = ''10MB'')
   \<and> (datePattern options = Some [] \<longrightarrow> datePattern' (resolveOptions options) = ''YYYY-MM-DD'')
   \<and> (nodeEnv options = Some [] \<longrightarrow> nodeEnv' (resolveOptions options) = ''development'')
   \<and> (maxFiles options = Some (Number 0) \<longrightarrow> maxFiles' (resolveOptions options) = Number 10)
   \<and> (maxFiles options = Some NaN \<longrightarrow> maxFiles' (resolveOptions options) = Number 10)"
  by (simp add: resolve_defs)

theorem defaults_resolution_witness:
  "resolveOptions noOptions =
     \<lparr> logLevel = ''info'', enableConsole' = True, enableFile' = False, logDir' = ''logs'',
       maxFiles' = Number 10, maxSize' = ''10MB'', datePattern' = ''YYYY-MM-DD'',
       zippedArchive' = True, nodeEnv' = ''development'', isProduction = False \<rparr>
   \<and> resolveOptions givenOptions =
     \<lparr> logLevel = ''verbose'', enableConsole' = False, enableFile' = True,
       logDir' = ''/var/log/app'', maxFiles' = Number 30, maxSize' = ''20MB'',
       datePattern' = ''YYYY-MM'', zippedArchive' = False, nodeEnv' = ''production'',
       isProduction = True \<rparr>
   \<and> resolveOptions falsyOptions =
     \<lparr> logLevel = ''info'', enableConsole' = False, enableFile' = True, logDir' = ''logs'',
       maxFiles' = Number 10, maxSize' = ''10MB'', datePattern' = ''YYYY-MM-DD'',
       zippedArchive' = False, nodeEnv' = ''development'', isProduction = False \<rparr>
   \<and> maxFiles nanOptions = Some NaN
   \<and> maxFiles' (resolveOptions nanOptions) = Number 10"
  using defaults_resolution [of noOptions] defaults_resolution [of givenOptions]
        defaults_resolution [of falsyOptions] defaults_resolution [of nanOptions]
  by (simp add: noOptions_def givenOptions_def falsyOptions_def nanOptions_def resolve_defs)

text \<open>
  C10: a level, directory, size or date pattern given as the empty string, and
  \<open>maxFiles\<close> given as \<open>0\<close>, are replaced by the defaults.  The directory that
  \<open>createWinstonConfig\<close> computes is therefore never empty, so the file branch never
  takes the arm that reports a missing directory: it always ensures the directory and
  pushes the file transports, and \<open>createWinstonConfig\<close> never writes the
  missing-directory diagnostic.  With file logging enabled the error, warn, info and
  combined file transports are always composed.
\<close>

theorem falsy_values_defaulted:
  "(level options = Some [] \<longrightarrow> logLevel (resolveOptions options) = ''info'')
   \<and> (logDir options = Some [] \<longrightarrow> logDir' (resolveOptions options) = ''logs'')
   \<and> (maxSize options = Some [] \<longrightarrow> maxSize' (resolveOptions options) = ''10MB'')
   \<and> (datePattern options = Some [] \<longrightarrow> datePattern' (resolveOptions options) = ''YYYY-MM-DD'')
   \<and> (maxFiles options = Some (Number 0) \<longrightarrow> maxFiles' (resolveOptions options) = Number 10)
   \<and> logDir' (resolveOptions options) \<noteq> []
   \<and> pushFileTransports (resolveOptions options) ts w =
        (ts @ [errorTransport (resolveOptions options), warnTransport (resolveOptions options),
               infoTransport (resolveOptions options), combinedTransport (resolveOptions options)]
            @ (if \<not> isProduction (resolveOptions options)
                  \<or> logLevel (resolveOptions options) = ''debug''
                  \<or> logLevel (resolveOptions options) = ''verbose''
                  \<or> logLevel (resolveOptions options) = ''silly''
               then [debugTransport (resolveOptions options)] else []),
         ensureLogDirectory (logDir' (resolveOptions options)) w)
   \<and> (LogDirMissing \<in> set (console_error (snd (createWinstonConfig options w)))
        \<longrightarrow> LogDirMissing \<in> set (console_error w))
   \<and> (enableFile options = Some True
        \<longrightarrow> take 4 (map tier (fileSinks (transports (fst (createWinstonConfig options w))))) =
              [''error-%DATE%.log'', ''warn-%DATE%.log'', ''info-%DATE%.log'', ''combined-%DATE%.log''])"
proof -
  let ?c = "resolveOptions options"
  have defaults:
    "level options = Some [] \<longrightarrow> logLevel ?c = ''info''"
    "logDir options = Some [] \<longrightarrow> logDir' ?c = ''logs''"
    "maxSize options = Some [] \<longrightarrow> maxSize' ?c = ''10MB''"
    "datePattern options = Some [] \<longrightarrow> datePattern' ?c = ''YYYY-MM-DD''"
    "maxFiles options = Some (Number 0) \<longrightarrow> maxFiles' ?c = Number 10"
    by (simp_all add: resolve_defs)
  have dir: "logDir' ?c \<noteq> []"
    by (rule logDir_nonempty)
  have branch: "pushFileTransports ?c ts w =
        (ts @ [errorTransport ?c, warnTransport ?c, infoTransport ?c, combinedTransport ?c]
            @ (if \<not> isProduction ?c \<or> logLevel ?c = ''debug'' \<or> logLevel ?c = ''verbose''
                  \<or> logLevel ?c = ''silly''
               then [debugTransport ?c] else []),
         ensureLogDirectory (logDir' ?c) w)"
    using dir by (simp add: pushFileTransports_def Let_def)
  have quiet: "LogDirMissing \<in> set (console_error (snd (createWinstonConfig options w)))
        \<longrightarrow> LogDirMissing \<in> set (console_error w)"
    by (simp add: world_createWinstonConfig ensureLogDirectory_def)
  have enabled: "enableFile options = Some True \<longrightarrow> enableFile' ?c"
    by (simp add: resolve_defs)
  have emitted: "enableFile options = Some True
        \<longrightarrow> take 4 (map tier (fileSinks (transports (fst (createWinstonConfig options w))))) =
              [''error-%DATE%.log'', ''warn-%DATE%.log'', ''info-%DATE%.log'', ''combined-%DATE%.log'']"
    using enabled by (simp add: transports_createWinstonConfig transport_defs)
  show ?thesis
    by (intro conjI defaults dir branch quiet emitted)
qed

theorem falsy_values_defaulted_witness:
  "level falsyOptions = Some [] \<and> logDir falsyOptions = Some [] \<and> maxSize falsyOptions = Some []
   \<and> datePattern falsyOptions = Some [] \<and> maxFiles falsyOptions = Some (Number 0)
   \<and> enableFile falsyOptions = Some True
   \<and> resolveOptions falsyOptions =
     \<lparr> logLevel = ''info'', enableConsole' = False, enableFile' = True, logDir' = ''logs'',
       maxFiles' = Number 10, maxSize' = ''10MB'', datePattern' = ''YYYY-MM-DD'', zippedArchive' = False,
       nodeEnv' = ''development'', isProduction = False \<rparr>
   \<and> map tier (fileSinks (transports (fst (createWinstonConfig falsyOptions emptyDisk)))) =
       [''error-%DATE%.log'', ''warn-%DATE%.log'', ''info-%DATE%.log'', ''combined-%DATE%.log'',
        ''debug-%DATE%.log'']
   \<and> console_error (snd (createWinstonConfig falsyOptions emptyDisk)) = []"
  using falsy_values_defaulted [of falsyOptions "[]" emptyDisk]
  by (simp add: falsyOptions_def resolve_defs transports_createWinstonConfig transport_defs
      world_createWinstonConfig ensureLogDirectory_def emptyDisk_def)

end
